theory Spec2Isabelle
  imports Complex_Main "HOL-Library.AList"
begin

section \<open>Python values of the Snowflake SQL API client\<close>

text \<open>
  Every value the client handles comes out of \<^verbatim>\<open>response.json()\<close> or goes into
  a request payload, so the values of the model are JSON values. Python's \<^verbatim>\<open>None\<close>
  is \<open>JNull\<close>. A \<^verbatim>\<open>dict\<close> is an association list: a lookup finds the first
  binding of a key, and a store (\<open>AList.update\<close>) overwrites a key in place or appends a
  new one at the end, which is the insertion order of a Python dict. Python's \<^verbatim>\<open>int\<close>
  and \<^verbatim>\<open>float\<close> are both \<open>JNum\<close>: floats are idealised as exact reals.
\<close>

datatype json =
    JNull
  | JBool bool
  | JNum real
  | JStr string
  | JArr "json list"
  | JObj "(string \<times> json) list"

type_synonym dict = "(string \<times> json) list"

text \<open>
  The exceptions of the program. The first four are raised by the Python runtime (a
  missing key, an operation on a value of the wrong type, a missing method, a body that
  is not JSON); the others are the \<^verbatim>\<open>raise Exception(...)\<close> of the source, one
  constructor for each site, with the values its message is formatted from.
\<close>

datatype py_error =
    KeyError string
  | TypeError
  | AttributeError
  | JSONDecodeError
  | RefreshFailed int string
  | ExecutionFailed int string
  | StatusFailed int string
  | TimedOut int
  | AsyncSubmitFailed int string

text \<open>Truth value of a Python object, as \<^verbatim>\<open>if x\<close>, \<^verbatim>\<open>x or y\<close> and \<^verbatim>\<open>x and y\<close> test it.\<close>

fun truthy :: "json \<Rightarrow> bool" where
  "truthy JNull = False"
| "truthy (JBool b) = b"
| "truthy (JNum x) = (x \<noteq> 0)"
| "truthy (JStr s) = (s \<noteq> [])"
| "truthy (JArr xs) = (xs \<noteq> [])"
| "truthy (JObj d) = (d \<noteq> [])"

text \<open>\<^verbatim>\<open>x or y\<close>: the first operand when it is true, the second otherwise.\<close>

definition py_or :: "json \<Rightarrow> json \<Rightarrow> json" where
  "py_or x y = (if truthy x then x else y)"

text \<open>\<^verbatim>\<open>d.get(k)\<close> and \<^verbatim>\<open>d.get(k, default)\<close> on a dict.\<close>

definition dict_get :: "dict \<Rightarrow> string \<Rightarrow> json \<Rightarrow> json" where
  "dict_get d k dflt = (case map_of d k of None \<Rightarrow> dflt | Some v \<Rightarrow> v)"

text \<open>
  \<^verbatim>\<open>v[k]\<close> with a string key: KeyError on a dict without the key, TypeError on a
  list, a string, a number, a boolean or None.
\<close>

fun py_getitem :: "json \<Rightarrow> string \<Rightarrow> py_error + json" where
  "py_getitem (JObj d) k = (case map_of d k of None \<Rightarrow> Inl (KeyError k) | Some v \<Rightarrow> Inr v)"
| "py_getitem _ k = Inl TypeError"

text \<open>\<^verbatim>\<open>v.get(k, default)\<close>: only a dict has the method.\<close>

fun py_get :: "json \<Rightarrow> string \<Rightarrow> json \<Rightarrow> py_error + json" where
  "py_get (JObj d) k dflt = Inr (dict_get d k dflt)"
| "py_get _ k dflt = Inl AttributeError"

text \<open>
  \<^verbatim>\<open>for x in v\<close>: the elements of a list, the keys of a dict, the characters of a
  string; TypeError on a number, a boolean or None.
\<close>

fun py_iter :: "json \<Rightarrow> py_error + json list" where
  "py_iter (JArr xs) = Inr xs"
| "py_iter (JObj d) = Inr (map (\<lambda>kv. JStr (fst kv)) d)"
| "py_iter (JStr s) = Inr (map (\<lambda>c. JStr [c]) s)"
| "py_iter _ = Inl TypeError"

section \<open>Result normalizer: \<^verbatim>\<open>_format_result\<close>\<close>

text \<open>
  One element of the list comprehension over \<^verbatim>\<open>metadata['rowType']\<close>: the dict
  display evaluates \<^verbatim>\<open>col['name']\<close>, \<^verbatim>\<open>col['type']\<close> and
  \<^verbatim>\<open>col.get('nullable', True)\<close> in this order.
\<close>

definition format_column :: "json \<Rightarrow> py_error + json" where
  "format_column col =
     (case py_getitem col ''name'' of
        Inl e \<Rightarrow> Inl e
      | Inr name \<Rightarrow>
          (case py_getitem col ''type'' of
             Inl e \<Rightarrow> Inl e
           | Inr ty \<Rightarrow>
               (case py_get col ''nullable'' (JBool True) of
                  Inl e \<Rightarrow> Inl e
                | Inr nullable \<Rightarrow>
                    Inr (JObj [(''name'', name), (''type'', ty), (''nullable'', nullable)]))))"

text \<open>The comprehension: the first element that raises ends it.\<close>

fun format_columns :: "json list \<Rightarrow> py_error + json list" where
  "format_columns [] = Inr []"
| "format_columns (col # cols) =
     (case format_column col of
        Inl e \<Rightarrow> Inl e
      | Inr c \<Rightarrow>
          (case format_columns cols of
             Inl e \<Rightarrow> Inl e
           | Inr cs \<Rightarrow> Inr (c # cs)))"

text \<open>
  The block under \<^verbatim>\<open>if 'resultSetMetaData' in result\<close>, on the dict
  \<open>formatted\<close> built so far. \<^verbatim>\<open>metadata.get('numRows', 0)\<close> is the first use of
  \<open>metadata\<close>, so a metadata value that is not a dict raises AttributeError there.
\<close>

definition extract_result_set :: "dict \<Rightarrow> json \<Rightarrow> dict \<Rightarrow> py_error + dict" where
  "extract_result_set result metadata formatted =
     (case metadata of
        JObj m \<Rightarrow>
          (let f1 = AList.update ''row_count'' (dict_get m ''numRows'' (JNum 0)) formatted in
           case (case map_of m ''rowType'' of
                   None \<Rightarrow> Inr f1
                 | Some row_type \<Rightarrow>
                     (case py_iter row_type of
                        Inl e \<Rightarrow> Inl e
                      | Inr cols \<Rightarrow>
                          (case format_columns cols of
                             Inl e \<Rightarrow> Inl e
                           | Inr cs \<Rightarrow> Inr (AList.update ''columns'' (JArr cs) f1)))) of
             Inl e \<Rightarrow> Inl e
           | Inr f2 \<Rightarrow>
               Inr (case map_of result ''data'' of
                      None \<Rightarrow> f2
                    | Some d \<Rightarrow> AList.update ''data'' d f2))
      | _ \<Rightarrow> Inl AttributeError)"

text \<open>
  \<^verbatim>\<open>_format_result(self, result)\<close>. It does not read \<open>self\<close>.
  \<^verbatim>\<open>result.get('statementHandle')\<close> is the first use of \<open>result\<close>, so a raw
  response that is not a dict raises AttributeError.
\<close>

definition format_result :: "json \<Rightarrow> py_error + json" where
  "format_result result =
     (case result of
        JObj r \<Rightarrow>
          (let formatted =
                 [(''statement_handle'', dict_get r ''statementHandle'' JNull),
                  (''success'', JBool (map_of r ''resultSetMetaData'' \<noteq> None)),
                  (''row_count'', JNum 0),
                  (''columns'', JArr []),
                  (''data'', JArr [])] in
           case (case map_of r ''resultSetMetaData'' of
                   None \<Rightarrow> Inr formatted
                 | Some metadata \<Rightarrow> extract_result_set r metadata formatted) of
             Inl e \<Rightarrow> Inl e
           | Inr f1 \<Rightarrow>
               (let f2 = (case map_of r ''message'' of
                            None \<Rightarrow> f1
                          | Some msg \<Rightarrow> AList.update ''message'' msg f1);
                    f3 = (case map_of r ''code'' of
                            None \<Rightarrow> f2
                          | Some code \<Rightarrow> AList.update ''code'' code f2)
                in Inr (JObj f3)))
      | _ \<Rightarrow> Inl AttributeError)"

section \<open>The world outside the client: clock and network\<close>

text \<open>
  A request as the client hands it to \<^verbatim>\<open>requests.post\<close> or \<^verbatim>\<open>requests.get\<close>.
  The four URLs the client builds are \<^verbatim>\<open>self.token_url\<close>, \<^verbatim>\<open>self.sql_url\<close>,
  \<^verbatim>\<open>f"{self.sql_url}/{handle}"\<close> and \<^verbatim>\<open>f"{self.sql_url}/{handle}/cancel"\<close>;
  \<open>bearer\<close> is the token formatted into the Authorization header (absent on the token
  request) and \<open>payload\<close> the \<^verbatim>\<open>data=\<close> or \<^verbatim>\<open>json=\<close> argument. The constant
  headers are left out.
\<close>

datatype http_method = GET | POST

datatype endpoint = TokenUrl | SqlUrl | StatusUrl json | CancelUrl json

record request =
  meth :: http_method
  url :: endpoint
  bearer :: "json option"
  payload :: "json option"

text \<open>
  A response: \<^verbatim>\<open>response.status_code\<close>, \<^verbatim>\<open>response.text\<close>, and what
  \<^verbatim>\<open>response.json()\<close> returns (\<open>None\<close> when the body is not JSON and the call
  raises).
\<close>

record response =
  status_code :: int
  resp_text :: string
  json_body :: "json option"

text \<open>
  The environment is arbitrary: the \<open>k\<close>-th request of a run is answered by
  \<open>respond env k\<close> after \<open>latency env k\<close> seconds, and a \<^verbatim>\<open>time.sleep(s)\<close>
  issued after \<open>k\<close> requests lasts \<open>s + oversleep env k\<close> seconds. The world is the wall
  clock and the log of the requests sent, each with the time it was issued at.
  Computation between blocking calls takes no time. Every request is answered: a
  request that ends in a connection error, with no response at all, is not modelled.
\<close>

record env =
  respond :: "nat \<Rightarrow> response"
  latency :: "nat \<Rightarrow> real"
  oversleep :: "nat \<Rightarrow> real"

record world =
  now :: real
  sent :: "(real \<times> request) list"

definition requests_send :: "env \<Rightarrow> request \<Rightarrow> world \<Rightarrow> response \<times> world" where
  "requests_send env req w =
     (let k = length (sent w) in
      (respond env k, \<lparr>now = now w + latency env k, sent = sent w @ [(now w, req)]\<rparr>))"

definition time_sleep :: "env \<Rightarrow> real \<Rightarrow> world \<Rightarrow> world" where
  "time_sleep env secs w = w\<lparr>now := now w + secs + oversleep env (length (sent w))\<rparr>"

section \<open>Token manager: \<^verbatim>\<open>_get_access_token\<close>\<close>

text \<open>
  The fields of \<^verbatim>\<open>self\<close> that the methods read or write. \<open>access_token\<close> starts as
  \<^verbatim>\<open>None\<close> and \<open>token_expires_at\<close> as 0.
\<close>

record client =
  refresh_token :: string
  oauth_client_id :: string
  oauth_client_secret :: string
  database :: string
  schema :: string
  access_token :: json
  token_expires_at :: real

definition token_request :: "client \<Rightarrow> request" where
  "token_request c =
     \<lparr>meth = POST, url = TokenUrl, bearer = None,
      payload = Some (JObj [(''grant_type'', JStr ''refresh_token''),
                            (''refresh_token'', JStr (refresh_token c)),
                            (''client_id'', JStr (oauth_client_id c)),
                            (''client_secret'', JStr (oauth_client_secret c))])\<rparr>"

text \<open>
  \<^verbatim>\<open>expires_in * 0.9\<close>: a number (a boolean counts as 0 or 1) times a float; TypeError
  on None, a string, a list or a dict.
\<close>

fun py_mul_float :: "json \<Rightarrow> real \<Rightarrow> py_error + real" where
  "py_mul_float (JNum x) f = Inr (x * f)"
| "py_mul_float (JBool b) f = Inr ((if b then 1 else 0) * f)"
| "py_mul_float _ f = Inl TypeError"

text \<open>
  The cached-token test of the first line:
  \<^verbatim>\<open>self._access_token and time.time() < self._token_expires_at\<close>.
\<close>

definition token_cached :: "client \<Rightarrow> world \<Rightarrow> bool" where
  "token_cached c w = (truthy (access_token c) \<and> now w < token_expires_at c)"

text \<open>
  \<^verbatim>\<open>_get_access_token\<close> returns the token or the exception raised, the client and the
  world. \<^verbatim>\<open>self._access_token\<close> is assigned before \<open>expires_in\<close> is read, so an
  exception on that line leaves the new token with the old expiry. The second
  \<^verbatim>\<open>time.time()\<close> is read after the response has arrived.
\<close>

definition get_access_token ::
  "env \<Rightarrow> client \<Rightarrow> world \<Rightarrow> (py_error + json) \<times> client \<times> world" where
  "get_access_token env c w =
     (if token_cached c w then (Inr (access_token c), c, w)
      else
        (case requests_send env (token_request c) w of
           (resp, w1) \<Rightarrow>
             if status_code resp \<noteq> 200
             then (Inl (RefreshFailed (status_code resp) (resp_text resp)), c, w1)
             else
               (case json_body resp of
                  None \<Rightarrow> (Inl JSONDecodeError, c, w1)
                | Some token_data \<Rightarrow>
                    (case py_getitem token_data ''access_token'' of
                       Inl e \<Rightarrow> (Inl e, c, w1)
                     | Inr tok \<Rightarrow>
                         (let c1 = c\<lparr>access_token := tok\<rparr> in
                          case py_get token_data ''expires_in'' (JNum 600) of
                            Inl e \<Rightarrow> (Inl e, c1, w1)
                          | Inr expires_in \<Rightarrow>
                              (case py_mul_float expires_in 0.9 of
                                 Inl e \<Rightarrow> (Inl e, c1, w1)
                               | Inr slack \<Rightarrow>
                                   (Inr tok, c1\<lparr>token_expires_at := now w1 + slack\<rparr>, w1)))))))"

section \<open>Statement executor: \<^verbatim>\<open>execute\<close> and \<^verbatim>\<open>_poll_statement\<close>\<close>

definition status_request :: "json \<Rightarrow> json \<Rightarrow> request" where
  "status_request statement_handle tok =
     \<lparr>meth = GET, url = StatusUrl statement_handle, bearer = Some tok, payload = None\<rparr>"

text \<open>
  The \<^verbatim>\<open>while\<close> loop of \<^verbatim>\<open>_poll_statement\<close>, with the local variables it reads:
  the handle, the token fetched before the loop, \<open>start_time\<close> and \<open>timeout\<close>. Nothing
  in the loop bounds the number of iterations but the clock, so the loop is a partial
  function: \<open>None\<close> is a run that never leaves it.
  \<^verbatim>\<open>result.get('statementStatusUrl')\<close> raises AttributeError on a body that is not a
  dict.
\<close>

partial_function (option) poll_loop ::
  "env \<Rightarrow> json \<Rightarrow> json \<Rightarrow> real \<Rightarrow> int \<Rightarrow> world \<Rightarrow> ((py_error + json) \<times> world) option" where
  "poll_loop env statement_handle tok start_time timeout w =
     (if now w - start_time < real_of_int timeout then
        (case requests_send env (status_request statement_handle tok) w of
           (resp, w1) \<Rightarrow>
             if status_code resp \<noteq> 200
             then Some (Inl (StatusFailed (status_code resp) (resp_text resp)), w1)
             else
               (case json_body resp of
                  None \<Rightarrow> Some (Inl JSONDecodeError, w1)
                | Some result \<Rightarrow>
                    (case result of
                       JObj r \<Rightarrow>
                         if map_of r ''resultSetMetaData'' \<noteq> None \<or> map_of r ''message'' \<noteq> None
                         then Some (Inr result, w1)
                         else poll_loop env statement_handle tok start_time timeout
                                (time_sleep env 1 w1)
                     | _ \<Rightarrow> Some (Inl AttributeError, w1))))
      else Some (Inl (TimedOut timeout), w))"

text \<open>
  \<^verbatim>\<open>_poll_statement\<close>: one token lookup, then \<open>start_time = time.time()\<close>, then the
  loop.
\<close>

definition poll_statement ::
  "env \<Rightarrow> client \<Rightarrow> world \<Rightarrow> json \<Rightarrow> int \<Rightarrow> ((py_error + json) \<times> client \<times> world) option" where
  "poll_statement env c w statement_handle timeout =
     (case get_access_token env c w of
        (Inl e, c1, w1) \<Rightarrow> Some (Inl e, c1, w1)
      | (Inr tok, c1, w1) \<Rightarrow>
          (case poll_loop env statement_handle tok (now w1) timeout w1 of
             None \<Rightarrow> None
           | Some (r, w2) \<Rightarrow> Some (r, c1, w2)))"

text \<open>
  The payload of \<^verbatim>\<open>execute\<close>. \<open>sql\<close> is a string and \<open>timeout\<close> an int; the
  optional arguments default to \<^verbatim>\<open>None\<close>; \<^verbatim>\<open>self.database\<close> and
  \<^verbatim>\<open>self.schema\<close> are strings (empty when the environment does not set them).
\<close>

definition execute_payload ::
  "client \<Rightarrow> string \<Rightarrow> int \<Rightarrow> json \<Rightarrow> json \<Rightarrow> json \<Rightarrow> json \<Rightarrow> json \<Rightarrow> dict" where
  "execute_payload c sql timeout db sch warehouse role bindings =
     (let p0 = [(''statement'', JStr sql), (''timeout'', JNum (real_of_int timeout))];
          p1 = (if truthy db \<or> database c \<noteq> []
                then AList.update ''database'' (py_or db (JStr (database c))) p0 else p0);
          p2 = (if truthy sch \<or> schema c \<noteq> []
                then AList.update ''schema'' (py_or sch (JStr (schema c))) p1 else p1);
          p3 = (if truthy warehouse then AList.update ''warehouse'' warehouse p2 else p2);
          p4 = (if truthy role then AList.update ''role'' role p3 else p3);
          p5 = (if truthy bindings then AList.update ''bindings'' bindings p4 else p4)
      in p5)"

definition submit_request :: "json \<Rightarrow> dict \<Rightarrow> request" where
  "submit_request tok p = \<lparr>meth = POST, url = SqlUrl, bearer = Some tok, payload = Some (JObj p)\<rparr>"

text \<open>
  \<^verbatim>\<open>execute\<close>: token lookup, submission, the status test, \<^verbatim>\<open>response.json()\<close>,
  polling on 202 with \<^verbatim>\<open>result['statementHandle']\<close>, and the normalizer on what
  is left. \<open>None\<close> is a run that never leaves the polling loop.
\<close>

definition execute ::
  "env \<Rightarrow> client \<Rightarrow> world \<Rightarrow> string \<Rightarrow> int \<Rightarrow> json \<Rightarrow> json \<Rightarrow> json \<Rightarrow> json \<Rightarrow> json
     \<Rightarrow> ((py_error + json) \<times> client \<times> world) option" where
  "execute env c w sql timeout db sch warehouse role bindings =
     (case get_access_token env c w of
        (Inl e, c1, w1) \<Rightarrow> Some (Inl e, c1, w1)
      | (Inr tok, c1, w1) \<Rightarrow>
          (case requests_send env
                  (submit_request tok (execute_payload c1 sql timeout db sch warehouse role bindings))
                  w1 of
             (resp, w2) \<Rightarrow>
               if status_code resp \<noteq> 200 \<and> status_code resp \<noteq> 202
               then Some (Inl (ExecutionFailed (status_code resp) (resp_text resp)), c1, w2)
               else
                 (case json_body resp of
                    None \<Rightarrow> Some (Inl JSONDecodeError, c1, w2)
                  | Some result \<Rightarrow>
                      if status_code resp = 202
                      then
                        (case py_getitem result ''statementHandle'' of
                           Inl e \<Rightarrow> Some (Inl e, c1, w2)
                         | Inr statement_handle \<Rightarrow>
                             (case poll_statement env c1 w2 statement_handle timeout of
                                None \<Rightarrow> None
                              | Some (Inl e, c2, w3) \<Rightarrow> Some (Inl e, c2, w3)
                              | Some (Inr polled, c2, w3) \<Rightarrow>
                                  Some (format_result polled, c2, w3)))
                      else Some (format_result result, c1, w2))))"

section \<open>Asynchronous submission: \<^verbatim>\<open>execute_async\<close>\<close>



section \<open>Well-formed envelopes and example inputs\<close>

text \<open>
  The shape of a raw envelope that the service documents: \<^verbatim>\<open>resultSetMetaData\<close>, when
  present, is an object; its \<^verbatim>\<open>rowType\<close>, when present, is an array of objects that
  each have the keys \<^verbatim>\<open>name\<close> and \<^verbatim>\<open>type\<close>.
\<close>

definition column_ok :: "json \<Rightarrow> bool" where
  "column_ok col =
     (case col of
        JObj c \<Rightarrow> map_of c ''name'' \<noteq> None \<and> map_of c ''type'' \<noteq> None
      | _ \<Rightarrow> False)"

definition metadata_ok :: "json \<Rightarrow> bool" where
  "metadata_ok metadata =
     (case metadata of
        JObj m \<Rightarrow>
          (case map_of m ''rowType'' of
             None \<Rightarrow> True
           | Some (JArr cols) \<Rightarrow> list_all column_ok cols
           | Some _ \<Rightarrow> False)
      | _ \<Rightarrow> False)"

definition envelope_ok :: "dict \<Rightarrow> bool" where
  "envelope_ok r =
     (case map_of r ''resultSetMetaData'' of
        None \<Rightarrow> True
      | Some metadata \<Rightarrow> metadata_ok metadata)"

text \<open>
  The normalizer as the specification words it, total on objects: every field that is
  missing takes its default (no handle, row count 0, no columns, no data, \<open>nullable\<close>
  true), and \<open>message\<close> and \<open>code\<close> are copied when present.
\<close>

definition spec_column :: "json \<Rightarrow> json" where
  "spec_column col =
     (case col of
        JObj c \<Rightarrow>
          JObj [(''name'', dict_get c ''name'' JNull),
                (''type'', dict_get c ''type'' JNull),
                (''nullable'', dict_get c ''nullable'' (JBool True))]
      | _ \<Rightarrow> JNull)"

definition spec_format_result :: "dict \<Rightarrow> dict" where
  "spec_format_result r =
     [(''statement_handle'', dict_get r ''statementHandle'' JNull),
      (''success'', JBool (map_of r ''resultSetMetaData'' \<noteq> None)),
      (''row_count'',
         (case map_of r ''resultSetMetaData'' of
            Some (JObj m) \<Rightarrow> dict_get m ''numRows'' (JNum 0)
          | _ \<Rightarrow> JNum 0)),
      (''columns'',
         (case map_of r ''resultSetMetaData'' of
            Some (JObj m) \<Rightarrow>
              (case map_of m ''rowType'' of
                 Some (JArr cols) \<Rightarrow> JArr (map spec_column cols)
               | _ \<Rightarrow> JArr [])
          | _ \<Rightarrow> JArr [])),
      (''data'',
         (case map_of r ''resultSetMetaData'' of
            None \<Rightarrow> JArr []
          | Some metadata \<Rightarrow> dict_get r ''data'' (JArr [])))]
     @ (case map_of r ''message'' of None \<Rightarrow> [] | Some msg \<Rightarrow> [(''message'', msg)])
     @ (case map_of r ''code'' of None \<Rightarrow> [] | Some code \<Rightarrow> [(''code'', code)])"

text \<open>The envelope of the normalization round trip: one TEXT column, two rows.\<close>

definition envelope_A :: json where
  "envelope_A =
     JObj [(''resultSetMetaData'',
              JObj [(''rowType'', JArr [JObj [(''name'', JStr ''A''), (''type'', JStr ''TEXT'')]]),
                    (''numRows'', JNum 2)]),
           (''data'', JArr [JArr [JStr ''x''], JArr [JNull]])]"

text \<open>An envelope whose only column descriptor has no \<^verbatim>\<open>name\<close>.\<close>

definition envelope_nameless :: json where
  "envelope_nameless =
     JObj [(''resultSetMetaData'',
              JObj [(''rowType'', JArr [JObj [(''type'', JStr ''TEXT'')]])])]"

text \<open>
  The exceptions the polling loop itself raises: a status fetch that is not 200, a body
  that is not JSON or not an object, and the timeout.
\<close>

definition poll_error :: "py_error \<Rightarrow> bool" where
  "poll_error e =
     (case e of
        StatusFailed a b \<Rightarrow> True
      | JSONDecodeError \<Rightarrow> True
      | AttributeError \<Rightarrow> True
      | TimedOut t \<Rightarrow> True
      | _ \<Rightarrow> False)"

text \<open>
  A status response that keeps the loop going: HTTP 200 and an object without
  \<^verbatim>\<open>resultSetMetaData\<close> and without \<^verbatim>\<open>message\<close>.
\<close>

definition pending_response :: "response \<Rightarrow> bool" where
  "pending_response resp =
     (status_code resp = 200 \<and>
      (case json_body resp of
         Some (JObj r) \<Rightarrow> map_of r ''resultSetMetaData'' = None \<and> map_of r ''message'' = None
       | _ \<Rightarrow> False))"

section \<open>Example clients, responses and environments\<close>

text \<open>A client holding the token T0, good until time 100 (or until time 1).\<close>

definition client0 :: client where
  "client0 =
     \<lparr>refresh_token = ''R'', oauth_client_id = ''id'', oauth_client_secret = ''secret'',
      database = [], schema = [], access_token = JStr ''T0'', token_expires_at = 100\<rparr>"

definition client_short :: client where
  "client_short = client0\<lparr>token_expires_at := 1\<rparr>"

definition world_at :: "real \<Rightarrow> world" where
  "world_at t = \<lparr>now = t, sent = []\<rparr>"

definition token_response :: response where
  "token_response =
     \<lparr>status_code = 200, resp_text = [],
      json_body = Some (JObj [(''access_token'', JStr ''T1''), (''expires_in'', JNum 600)])\<rparr>"

definition pending :: response where
  "pending =
     \<lparr>status_code = 200, resp_text = [],
      json_body = Some (JObj [(''statementHandle'', JStr ''h'')])\<rparr>"

definition accepted :: response where
  "accepted =
     \<lparr>status_code = 202, resp_text = [],
      json_body = Some (JObj [(''statementHandle'', JStr ''h'')])\<rparr>"

text \<open>
  Environments: every request takes half a second and a sleep lasts exactly as long as
  asked. \<open>env_token\<close> answers with a fresh token, \<open>env_pending\<close> with a pending status;
  \<open>env_slow\<close> accepts the submission after five seconds and then answers pending.
\<close>

definition env_token :: env where
  "env_token =
     \<lparr>respond = (\<lambda>k. token_response), latency = (\<lambda>k. 1 / 2), oversleep = (\<lambda>k. 0)\<rparr>"

definition env_pending :: env where
  "env_pending = \<lparr>respond = (\<lambda>k. pending), latency = (\<lambda>k. 1 / 2), oversleep = (\<lambda>k. 0)\<rparr>"

definition env_slow :: env where
  "env_slow =
     \<lparr>respond = (\<lambda>k. if k = 0 then accepted else pending),
      latency = (\<lambda>k. if k = 0 then 5 else 1 / 2),
      oversleep = (\<lambda>k. 0)\<rparr>"

text \<open>The exceptions of the Python runtime, as against those the source raises itself.\<close>

definition runtime_error :: "py_error \<Rightarrow> bool" where
  "runtime_error e =
     (case e of
        KeyError k \<Rightarrow> True
      | TypeError \<Rightarrow> True
      | AttributeError \<Rightarrow> True
      | JSONDecodeError \<Rightarrow> True
      | _ \<Rightarrow> False)"

text \<open>
  A submission answered at once with the envelope of the round trip, one rejected with
  status 422, and a binding for one statement parameter.
\<close>

definition done_response :: response where
  "done_response = \<lparr>status_code = 200, resp_text = [], json_body = Some envelope_A\<rparr>"

definition rejected :: response where
  "rejected = \<lparr>status_code = 422, resp_text = ''SQL compilation error'', json_body = None\<rparr>"

definition env_done :: env where
  "env_done = \<lparr>respond = (\<lambda>k. done_response), latency = (\<lambda>k. 1 / 2), oversleep = (\<lambda>k. 0)\<rparr>"

definition env_rejected :: env where
  "env_rejected = \<lparr>respond = (\<lambda>k. rejected), latency = (\<lambda>k. 1 / 2), oversleep = (\<lambda>k. 0)\<rparr>"


text \<open>
  A token response without \<^verbatim>\<open>expires_in\<close>, and a statement that is accepted, pending
  at the first status fetch and complete, with the envelope of the round trip, at the
  second.
\<close>

definition token_response_default :: response where
  "token_response_default =
     \<lparr>status_code = 200, resp_text = [],
      json_body = Some (JObj [(''access_token'', JStr ''T1'')])\<rparr>"

definition env_token_default :: env where
  "env_token_default =
     \<lparr>respond = (\<lambda>k. token_response_default), latency = (\<lambda>k. 1 / 2), oversleep = (\<lambda>k. 0)\<rparr>"

definition env_poll :: env where
  "env_poll =
     \<lparr>respond = (\<lambda>k. if k = 0 then accepted else if k = 1 then pending else done_response),
      latency = (\<lambda>k. 1 / 2),
      oversleep = (\<lambda>k. 0)\<rparr>"

section \<open>Properties of the result normalizer\<close>

lemma format_column_spec: "column_ok col \<Longrightarrow> format_column col = Inr (spec_column col)"
  by (cases col) (auto simp: column_ok_def format_column_def spec_column_def dict_get_def)

lemma format_columns_spec:
  "list_all column_ok cols \<Longrightarrow> format_columns cols = Inr (map spec_column cols)"
  by (induction cols) (simp_all add: format_column_spec)

lemma extract_result_set_spec:
  assumes "metadata_ok (JObj m)"
  shows "extract_result_set r (JObj m)
           [(''statement_handle'', sh), (''success'', su), (''row_count'', JNum 0),
            (''columns'', JArr []), (''data'', JArr [])] =
         Inr [(''statement_handle'', sh), (''success'', su),
              (''row_count'', dict_get m ''numRows'' (JNum 0)),
              (''columns'',
                 (case map_of m ''rowType'' of
                    Some (JArr cols) \<Rightarrow> JArr (map spec_column cols)
                  | _ \<Rightarrow> JArr [])),
              (''data'', dict_get r ''data'' (JArr []))]"
proof (cases "map_of m ''rowType''")
  case None
  then show ?thesis
    by (cases "map_of r ''data''") (simp_all add: extract_result_set_def Let_def dict_get_def)
next
  case (Some row_type)
  with assms obtain cols where cols: "row_type = JArr cols" "list_all column_ok cols"
    by (cases row_type) (simp_all add: metadata_ok_def)
  from cols(2) have "format_columns cols = Inr (map spec_column cols)"
    by (rule format_columns_spec)
  then show ?thesis
    by (cases "map_of r ''data''")
      (simp_all add: Some cols(1) extract_result_set_def Let_def dict_get_def)
qed

text \<open>
  C1, as the code has it. The normalizer has no exception handler: it raises on a raw
  value that is not an object, on metadata that is not an object, on a \<^verbatim>\<open>rowType\<close>
  that cannot be iterated and on a column descriptor without \<^verbatim>\<open>name\<close> or
  \<^verbatim>\<open>type\<close>. On every envelope of the documented shape it returns, without raising,
  exactly the normalized result of the specification: a missing \<^verbatim>\<open>statementHandle\<close>
  is \<^verbatim>\<open>None\<close>, a missing \<^verbatim>\<open>numRows\<close> is 0, a missing \<^verbatim>\<open>rowType\<close> or
  \<^verbatim>\<open>data\<close> is the empty list, a missing \<^verbatim>\<open>nullable\<close> is true, and \<open>message\<close>
  and \<open>code\<close> are present exactly when the envelope has them.
\<close>

theorem format_result_well_formed:
  assumes "envelope_ok r"
  shows "format_result (JObj r) = Inr (JObj (spec_format_result r))"
proof (cases "map_of r ''resultSetMetaData''")
  case None
  then show ?thesis
    by (cases "map_of r ''message''"; cases "map_of r ''code''")
      (simp_all add: format_result_def spec_format_result_def)
next
  case (Some metadata)
  with assms have ok: "metadata_ok metadata" by (simp add: envelope_ok_def)
  then obtain m where m: "metadata = JObj m"
    by (cases metadata) (simp_all add: metadata_ok_def)
  note ex = extract_result_set_spec [OF ok [unfolded m], of r]
  show ?thesis
    by (cases "map_of r ''message''"; cases "map_of r ''code''")
      (simp_all add: format_result_def spec_format_result_def Some m ex)
qed

theorem format_result_well_formed_witness:
  "envelope_ok [(''resultSetMetaData'',
                  JObj [(''rowType'', JArr [JObj [(''name'', JStr ''A''), (''type'', JStr ''TEXT'')]])])]
   \<and> format_result
         (JObj [(''resultSetMetaData'',
                  JObj [(''rowType'', JArr [JObj [(''name'', JStr ''A''), (''type'', JStr ''TEXT'')]])])]) =
       Inr (JObj [(''statement_handle'', JNull),
                  (''success'', JBool True),
                  (''row_count'', JNum 0),
                  (''columns'', JArr [JObj [(''name'', JStr ''A''), (''type'', JStr ''TEXT''),
                                            (''nullable'', JBool True)]]),
                  (''data'', JArr [])])"
proof -
  have ok: "envelope_ok [(''resultSetMetaData'',
                  JObj [(''rowType'', JArr [JObj [(''name'', JStr ''A''), (''type'', JStr ''TEXT'')]])])]"
    by (simp add: envelope_ok_def metadata_ok_def column_ok_def)
  show ?thesis
    using ok format_result_well_formed [OF ok]
    by (simp add: spec_format_result_def spec_column_def dict_get_def)
qed

text \<open>
  C1 as stated fails: on an envelope whose column descriptor has no \<^verbatim>\<open>name\<close>,
  \<^verbatim>\<open>col['name']\<close> raises KeyError and no result is returned.
\<close>

theorem format_result_raises_counterexample:
  "format_result envelope_nameless = Inl (KeyError ''name'')"
  by (simp add: envelope_nameless_def format_result_def extract_result_set_def
      format_column_def dict_get_def)

text \<open>
  C7: on the envelope with \<^verbatim>\<open>rowType = [{name: "A", type: "TEXT"}]\<close>,
  \<^verbatim>\<open>numRows = 2\<close> and \<^verbatim>\<open>data = [["x"], [null]]\<close> the normalizer returns success,
  row count 2, the one column A of type TEXT with \<open>nullable\<close> defaulted to true, and the
  two data rows unchanged, the null still a null.
\<close>

theorem format_result_round_trip:
  "format_result envelope_A =
     Inr (JObj [(''statement_handle'', JNull),
                (''success'', JBool True),
                (''row_count'', JNum 2),
                (''columns'', JArr [JObj [(''name'', JStr ''A''), (''type'', JStr ''TEXT''),
                                          (''nullable'', JBool True)]]),
                (''data'', JArr [JArr [JStr ''x''], JArr [JNull]])])"
  by (simp add: envelope_A_def format_result_def extract_result_set_def format_column_def
      dict_get_def)

text \<open>
  C8: an envelope with a \<open>message\<close> and a \<open>code\<close> and no \<^verbatim>\<open>resultSetMetaData\<close> is
  normalized to \<open>success = False\<close>, no rows, no columns, and the message and the code
  as they came, whatever their values.
\<close>

theorem format_result_error_pass_through:
  assumes "map_of r ''resultSetMetaData'' = None"
    and "map_of r ''message'' = Some m"
    and "map_of r ''code'' = Some c"
  shows "format_result (JObj r) =
     Inr (JObj [(''statement_handle'', dict_get r ''statementHandle'' JNull),
                (''success'', JBool False),
                (''row_count'', JNum 0),
                (''columns'', JArr []),
                (''data'', JArr []),
                (''message'', m),
                (''code'', c)])"
  using assms by (simp add: format_result_def)

theorem format_result_error_pass_through_witness:
  "format_result (JObj [(''message'', JStr ''table not found''), (''code'', JStr ''002003'')]) =
     Inr (JObj [(''statement_handle'', JNull),
                (''success'', JBool False),
                (''row_count'', JNum 0),
                (''columns'', JArr []),
                (''data'', JArr []),
                (''message'', JStr ''table not found''),
                (''code'', JStr ''002003'')])"
  using format_result_error_pass_through
    [of "[(''message'', JStr ''table not found''), (''code'', JStr ''002003'')]"
        "JStr ''table not found''" "JStr ''002003''"]
  by (simp add: dict_get_def)

section \<open>Properties of the token manager\<close>

text \<open>
  C4: the code's test for a cached token is that \<^verbatim>\<open>self._access_token\<close> is true (not
  \<^verbatim>\<open>None\<close>, not empty). With such a token and the clock before \<open>expires_at\<close> the getter
  returns the cached token and leaves the client and the world as they are: no request
  is sent. In every other state, so with a cached token and the clock at or past
  \<open>expires_at\<close>, the call sends exactly one request, the refresh-token exchange,
  whether it then returns or raises.
\<close>

theorem get_access_token_reuse_or_refresh:
  "(truthy (access_token c) \<and> now w < token_expires_at c \<longrightarrow>
      get_access_token env c w = (Inr (access_token c), c, w))
   \<and> (\<not> (truthy (access_token c) \<and> now w < token_expires_at c) \<longrightarrow>
      (\<exists>r c' w'. get_access_token env c w = (r, c', w')
         \<and> sent w' = sent w @ [(now w, token_request c)]))"
  by (auto simp: get_access_token_def token_cached_def requests_send_def Let_def
      split: option.splits sum.splits)

theorem get_access_token_reuse_or_refresh_witness:
  "get_access_token env_token client0 (world_at 50) = (Inr (JStr ''T0''), client0, world_at 50)
   \<and> (\<exists>r c' w'. get_access_token env_token client0 (world_at 100) = (r, c', w')
         \<and> sent w' = [(100, token_request client0)])"
  using get_access_token_reuse_or_refresh [of client0 "world_at 50" env_token]
    get_access_token_reuse_or_refresh [of client0 "world_at 100" env_token]
  by (simp add: client0_def world_at_def)

lemma py_getitem_Inr: "py_getitem v k = Inr x \<Longrightarrow> \<exists>d. v = JObj d \<and> map_of d k = Some x"
  by (cases v) (auto split: option.splits)

text \<open>
  C5: a refresh succeeds whenever the token endpoint answers 200 with an object that has
  an \<^verbatim>\<open>access_token\<close> and whose \<^verbatim>\<open>expires_in\<close> is absent or a number: the getter
  then returns the new token and caches it with \<open>expires_at\<close> equal to the clock
  reading taken after the response arrived plus 0.9 times the reported
  \<^verbatim>\<open>expires_in\<close>, an absent \<^verbatim>\<open>expires_in\<close> counting as 600, so plus 540. Conversely,
  whenever the getter refreshes and returns, the response was such an object and the
  new \<open>expires_at\<close> is that sum. Floats are exact reals here, so the equality is exact.
\<close>

theorem get_access_token_slack:
  assumes "\<not> token_cached c w"
  shows "(\<forall>body tok.
            status_code (respond env (length (sent w))) = 200
            \<and> json_body (respond env (length (sent w))) = Some (JObj body)
            \<and> map_of body ''access_token'' = Some tok
            \<longrightarrow>
              (map_of body ''expires_in'' = None \<longrightarrow>
                 get_access_token env c w =
                   (Inr tok,
                    c\<lparr>access_token := tok,
                      token_expires_at := now w + latency env (length (sent w)) + 0.9 * 600\<rparr>,
                    \<lparr>now = now w + latency env (length (sent w)),
                     sent = sent w @ [(now w, token_request c)]\<rparr>))
              \<and> (\<forall>n. map_of body ''expires_in'' = Some (JNum n) \<longrightarrow>
                 get_access_token env c w =
                   (Inr tok,
                    c\<lparr>access_token := tok,
                      token_expires_at := now w + latency env (length (sent w)) + 0.9 * n\<rparr>,
                    \<lparr>now = now w + latency env (length (sent w)),
                     sent = sent w @ [(now w, token_request c)]\<rparr>)))
         \<and> (\<forall>tok c' w'. get_access_token env c w = (Inr tok, c', w') \<longrightarrow>
              (\<exists>body. json_body (respond env (length (sent w))) = Some (JObj body)
                 \<and> map_of body ''access_token'' = Some tok
                 \<and> access_token c' = tok
                 \<and> now w' = now w + latency env (length (sent w))
                 \<and> (map_of body ''expires_in'' = None \<longrightarrow> token_expires_at c' = now w' + 540)
                 \<and> (\<forall>n. map_of body ''expires_in'' = Some (JNum n) \<longrightarrow>
                        token_expires_at c' = now w' + 0.9 * n)))"
proof (intro conjI allI impI)
  fix body tok
  assume ok: "status_code (respond env (length (sent w))) = 200
            \<and> json_body (respond env (length (sent w))) = Some (JObj body)
            \<and> map_of body ''access_token'' = Some tok"
  assume "map_of body ''expires_in'' = None"
  with assms ok show "get_access_token env c w =
                   (Inr tok,
                    c\<lparr>access_token := tok,
                      token_expires_at := now w + latency env (length (sent w)) + 0.9 * 600\<rparr>,
                    \<lparr>now = now w + latency env (length (sent w)),
                     sent = sent w @ [(now w, token_request c)]\<rparr>)"
    by (simp add: get_access_token_def requests_send_def Let_def dict_get_def)
next
  fix body tok n
  assume ok: "status_code (respond env (length (sent w))) = 200
            \<and> json_body (respond env (length (sent w))) = Some (JObj body)
            \<and> map_of body ''access_token'' = Some tok"
  assume "map_of body ''expires_in'' = Some (JNum n)"
  with assms ok show "get_access_token env c w =
                   (Inr tok,
                    c\<lparr>access_token := tok,
                      token_expires_at := now w + latency env (length (sent w)) + 0.9 * n\<rparr>,
                    \<lparr>now = now w + latency env (length (sent w)),
                     sent = sent w @ [(now w, token_request c)]\<rparr>)"
    by (simp add: get_access_token_def requests_send_def Let_def dict_get_def)
next
  fix tok c' w'
  assume run: "get_access_token env c w = (Inr tok, c', w')"
  define resp where "resp = respond env (length (sent w))"
  define w1 where "w1 = \<lparr>now = now w + latency env (length (sent w)),
                          sent = sent w @ [(now w, token_request c)]\<rparr>"
  have send: "requests_send env (token_request c) w = (resp, w1)"
    by (simp add: requests_send_def resp_def w1_def Let_def)
  have st: "status_code resp = 200"
    using assms run send by (auto simp: get_access_token_def split: if_splits)
  obtain token_data where td: "json_body resp = Some token_data"
    using assms run send st by (cases "json_body resp") (auto simp: get_access_token_def)
  obtain t where t: "py_getitem token_data ''access_token'' = Inr t"
    using assms run send st td
    by (cases "py_getitem token_data ''access_token''") (auto simp: get_access_token_def)
  obtain body where body: "token_data = JObj body" "map_of body ''access_token'' = Some t"
    using t py_getitem_Inr by blast
  have unfolded: "get_access_token env c w =
      (case py_mul_float (dict_get body ''expires_in'' (JNum 600)) 0.9 of
         Inl e \<Rightarrow> (Inl e, c\<lparr>access_token := t\<rparr>, w1)
       | Inr slack \<Rightarrow>
           (Inr t, c\<lparr>access_token := t, token_expires_at := now w1 + slack\<rparr>, w1))"
    using assms send st td body by (simp add: get_access_token_def Let_def)
  obtain slack where
    slack: "py_mul_float (dict_get body ''expires_in'' (JNum 600)) 0.9 = Inr slack"
    using run unfolded
    by (cases "py_mul_float (dict_get body ''expires_in'' (JNum 600)) 0.9") auto
  have res: "tok = t" "c' = c\<lparr>access_token := t, token_expires_at := now w1 + slack\<rparr>" "w' = w1"
    using run unfolded slack by auto
  have a: "map_of body ''expires_in'' = None \<longrightarrow> token_expires_at c' = now w' + 540"
    using slack res by (auto simp: dict_get_def)
  have b: "\<forall>n. map_of body ''expires_in'' = Some (JNum n) \<longrightarrow>
             token_expires_at c' = now w' + 0.9 * n"
    using slack res by (auto simp: dict_get_def)
  have c: "json_body (respond env (length (sent w))) = Some (JObj body)"
    using td body by (simp add: resp_def)
  have d: "map_of body ''access_token'' = Some tok" "access_token c' = tok"
    "now w' = now w + latency env (length (sent w))"
    using body res by (simp_all add: w1_def)
  show "\<exists>body. json_body (respond env (length (sent w))) = Some (JObj body)
                 \<and> map_of body ''access_token'' = Some tok
                 \<and> access_token c' = tok
                 \<and> now w' = now w + latency env (length (sent w))
                 \<and> (map_of body ''expires_in'' = None \<longrightarrow> token_expires_at c' = now w' + 540)
                 \<and> (\<forall>n. map_of body ''expires_in'' = Some (JNum n) \<longrightarrow>
                        token_expires_at c' = now w' + 0.9 * n)"
    by (intro exI[of _ body] conjI) (rule a b c d)+
qed

theorem get_access_token_slack_witness:
  "\<not> token_cached client0 (world_at 100)
   \<and> get_access_token env_token_default client0 (world_at 100) =
       (Inr (JStr ''T1''),
        client0\<lparr>access_token := JStr ''T1'', token_expires_at := 201 / 2 + 540\<rparr>,
        \<lparr>now = 201 / 2, sent = [(100, token_request client0)]\<rparr>)
   \<and> get_access_token env_token client0 (world_at 100) =
       (Inr (JStr ''T1''),
        client0\<lparr>access_token := JStr ''T1'', token_expires_at := 201 / 2 + 540\<rparr>,
        \<lparr>now = 201 / 2, sent = [(100, token_request client0)]\<rparr>)"
proof -
  have stale: "\<not> token_cached client0 (world_at 100)"
    by (simp add: token_cached_def client0_def world_at_def)
  have absent: "status_code (respond env_token_default (length (sent (world_at 100)))) = 200
      \<and> json_body (respond env_token_default (length (sent (world_at 100)))) =
          Some (JObj [(''access_token'', JStr ''T1'')])
      \<and> map_of [(''access_token'', JStr ''T1'')] ''access_token'' = Some (JStr ''T1'')"
    and none: "map_of [(''access_token'', JStr ''T1'')] ''expires_in'' = None"
    by (simp_all add: env_token_default_def token_response_default_def)
  have given: "status_code (respond env_token (length (sent (world_at 100)))) = 200
      \<and> json_body (respond env_token (length (sent (world_at 100)))) =
          Some (JObj [(''access_token'', JStr ''T1''), (''expires_in'', JNum 600)])
      \<and> map_of [(''access_token'', JStr ''T1''), (''expires_in'', JNum 600)] ''access_token'' =
          Some (JStr ''T1'')"
    and some: "map_of [(''access_token'', JStr ''T1''), (''expires_in'', JNum 600)] ''expires_in'' =
          Some (JNum 600)"
    by (simp_all add: env_token_def token_response_def)
  from get_access_token_slack [OF stale, of env_token_default] absent none
  have run_absent: "get_access_token env_token_default client0 (world_at 100) =
       (Inr (JStr ''T1''),
        client0\<lparr>access_token := JStr ''T1'',
          token_expires_at := now (world_at 100)
             + latency env_token_default (length (sent (world_at 100))) + 0.9 * 600\<rparr>,
        \<lparr>now = now (world_at 100) + latency env_token_default (length (sent (world_at 100))),
         sent = sent (world_at 100) @ [(now (world_at 100), token_request client0)]\<rparr>)"
    by blast
  from get_access_token_slack [OF stale, of env_token] given some
  have run_given: "get_access_token env_token client0 (world_at 100) =
       (Inr (JStr ''T1''),
        client0\<lparr>access_token := JStr ''T1'',
          token_expires_at := now (world_at 100)
             + latency env_token (length (sent (world_at 100))) + 0.9 * 600\<rparr>,
        \<lparr>now = now (world_at 100) + latency env_token (length (sent (world_at 100))),
         sent = sent (world_at 100) @ [(now (world_at 100), token_request client0)]\<rparr>)"
    by blast
  have a: "get_access_token env_token_default client0 (world_at 100) =
       (Inr (JStr ''T1''),
        client0\<lparr>access_token := JStr ''T1'', token_expires_at := 201 / 2 + 540\<rparr>,
        \<lparr>now = 201 / 2, sent = [(100, token_request client0)]\<rparr>)"
    using run_absent by (simp add: world_at_def env_token_default_def)
  have b: "get_access_token env_token client0 (world_at 100) =
       (Inr (JStr ''T1''),
        client0\<lparr>access_token := JStr ''T1'', token_expires_at := 201 / 2 + 540\<rparr>,
        \<lparr>now = 201 / 2, sent = [(100, token_request client0)]\<rparr>)"
    using run_given by (simp add: world_at_def env_token_def)
  show ?thesis
    by (intro conjI) (rule stale a b)+
qed

section \<open>Properties of the polling loop\<close>

text \<open>
  What a finished run of the loop has done: it has sent status fetches only, all for the
  same handle with the same bearer token, each issued at a clock reading less than
  \<open>timeout\<close> past \<open>start_time\<close>; and what it raises is one of the loop's own
  exceptions.
\<close>

lemma poll_loop_log:
  assumes "poll_loop env h tok start timeout w = Some y"
  shows "(\<exists>new. sent (snd y) = sent w @ new
           \<and> list_all (\<lambda>tq. snd tq = status_request h tok
                              \<and> fst tq - start < real_of_int timeout) new)
         \<and> (case fst y of Inl e \<Rightarrow> poll_error e | Inr v \<Rightarrow> True)"
proof (rule poll_loop.raw_induct
    [where P = "\<lambda>env h tok start timeout w y.
       (\<exists>new. sent (snd y) = sent w @ new
           \<and> list_all (\<lambda>tq. snd tq = status_request h tok
                              \<and> fst tq - start < real_of_int timeout) new)
         \<and> (case fst y of Inl e \<Rightarrow> poll_error e | Inr v \<Rightarrow> True)", OF _ assms],
    goal_cases)
  case (1 poll_loop' env h tok start timeout w y)
  show ?case
  proof (cases "now w - start < real_of_int timeout")
    case False
    with 1(2) show ?thesis by (auto simp: poll_error_def)
  next
    case True
    define resp where "resp = respond env (length (sent w))"
    define w1 where "w1 = \<lparr>now = now w + latency env (length (sent w)),
                            sent = sent w @ [(now w, status_request h tok)]\<rparr>"
    have send: "requests_send env (status_request h tok) w = (resp, w1)"
      by (simp add: requests_send_def resp_def w1_def Let_def)
    have step: "(if status_code resp \<noteq> 200
             then Some (Inl (StatusFailed (status_code resp) (resp_text resp)), w1)
             else
               (case json_body resp of
                  None \<Rightarrow> Some (Inl JSONDecodeError, w1)
                | Some result \<Rightarrow>
                    (case result of
                       JObj r \<Rightarrow>
                         if map_of r ''resultSetMetaData'' \<noteq> None \<or> map_of r ''message'' \<noteq> None
                         then Some (Inr result, w1)
                         else poll_loop' env h tok start timeout (time_sleep env 1 w1)
                     | _ \<Rightarrow> Some (Inl AttributeError, w1)))) = Some y"
      using 1(2) True send by simp
    have here: "\<exists>new. sent w1 = sent w @ new
           \<and> list_all (\<lambda>tq. snd tq = status_request h tok
                              \<and> fst tq - start < real_of_int timeout) new"
      using True by (simp add: w1_def)
    consider (stop) "snd y = w1" "case fst y of Inl e \<Rightarrow> poll_error e | Inr v \<Rightarrow> True"
      | (again) "poll_loop' env h tok start timeout (time_sleep env 1 w1) = Some y"
      using step
      by (auto simp: poll_error_def split: if_splits option.splits json.splits)
    then show ?thesis
    proof cases
      case stop
      then show ?thesis using here by simp
    next
      case again
      from 1(1)[OF again] obtain new where
        new: "sent (snd y) = sent (time_sleep env 1 w1) @ new"
          "list_all (\<lambda>tq. snd tq = status_request h tok
                              \<and> fst tq - start < real_of_int timeout) new"
        and err: "case fst y of Inl e \<Rightarrow> poll_error e | Inr v \<Rightarrow> True"
        by blast
      have "sent (snd y) = sent w @ ((now w, status_request h tok) # new)"
        using new(1) by (simp add: w1_def time_sleep_def)
      moreover have "list_all (\<lambda>tq. snd tq = status_request h tok
                              \<and> fst tq - start < real_of_int timeout)
                       ((now w, status_request h tok) # new)"
        using new(2) True by simp
      ultimately show ?thesis using err by blast
    qed
  qed
qed

lemma poll_loop_expired:
  assumes "\<not> now w - start < real_of_int timeout"
  shows "poll_loop env h tok start timeout w = Some (Inl (TimedOut timeout), w)"
  using assms by (subst poll_loop.simps) simp

lemma poll_loop_pending_step:
  assumes "now w - start < real_of_int timeout"
    and "pending_response (respond env (length (sent w)))"
  shows "poll_loop env h tok start timeout w =
         poll_loop env h tok start timeout
           (time_sleep env 1 \<lparr>now = now w + latency env (length (sent w)),
                               sent = sent w @ [(now w, status_request h tok)]\<rparr>)"
proof -
  from assms(2) obtain r where r: "status_code (respond env (length (sent w))) = 200"
    "json_body (respond env (length (sent w))) = Some (JObj r)"
    "map_of r ''resultSetMetaData'' = None" "map_of r ''message'' = None"
    by (auto simp: pending_response_def split: option.splits json.splits)
  show ?thesis
    by (subst poll_loop.simps) (simp add: assms(1) r requests_send_def Let_def)
qed

text \<open>
  With a clock that does not run backwards, a loop that is only ever answered
  ``pending'' ends, and ends in the timeout: each round takes at least the second it
  sleeps.
\<close>

lemma poll_loop_times_out:
  assumes "\<forall>k. 0 \<le> latency env k \<and> 0 \<le> oversleep env k"
    and "\<forall>k\<ge>length (sent w). pending_response (respond env k)"
    and "real_of_int timeout - (now w - start) \<le> real n"
  shows "\<exists>w'. poll_loop env h tok start timeout w = Some (Inl (TimedOut timeout), w')"
  using assms(2,3)
proof (induction n arbitrary: w)
  case 0
  then have "\<not> now w - start < real_of_int timeout" by simp
  then show ?case using poll_loop_expired by blast
next
  case (Suc n)
  show ?case
  proof (cases "now w - start < real_of_int timeout")
    case False
    then show ?thesis using poll_loop_expired by blast
  next
    case True
    define w2 where "w2 = time_sleep env 1 \<lparr>now = now w + latency env (length (sent w)),
                               sent = sent w @ [(now w, status_request h tok)]\<rparr>"
    have pend: "pending_response (respond env (length (sent w)))"
      using Suc.prems(1) by simp
    have step: "poll_loop env h tok start timeout w = poll_loop env h tok start timeout w2"
      unfolding w2_def by (rule poll_loop_pending_step [OF True pend])
    have "now w2 = now w + latency env (length (sent w)) + 1 + oversleep env (Suc (length (sent w)))"
      by (simp add: w2_def time_sleep_def)
    moreover have "0 \<le> latency env (length (sent w))" "0 \<le> oversleep env (Suc (length (sent w)))"
      using assms(1) by simp_all
    ultimately have later: "now w + 1 \<le> now w2" by linarith
    have "real_of_int timeout - (now w2 - start) \<le> real n"
      using Suc.prems(2) later by simp
    moreover have "\<forall>k\<ge>length (sent w2). pending_response (respond env k)"
      using Suc.prems(1) by (simp add: w2_def time_sleep_def)
    ultimately show ?thesis
      using Suc.IH [of w2] step by simp
  qed
qed

text \<open>
  A finished \<^verbatim>\<open>_poll_statement\<close>: the token lookup at its start is the only one. The
  client is as that lookup left it, and everything sent after it is a status fetch for
  the handle with the token the lookup returned, issued less than \<open>timeout\<close> after the
  clock reading that followed the lookup.
\<close>

lemma poll_statement_run:
  assumes "poll_statement env c w h timeout = Some (r, c', w')"
  shows "\<exists>res c1 w1 new. get_access_token env c w = (res, c1, w1) \<and> c' = c1
           \<and> sent w' = sent w1 @ new
           \<and> (case res of
                 Inl e \<Rightarrow> r = Inl e \<and> new = []
               | Inr tok \<Rightarrow>
                   list_all (\<lambda>tq. snd tq = status_request h tok
                                    \<and> fst tq - now w1 < real_of_int timeout) new)"
proof -
  obtain res c1 w1 where tok: "get_access_token env c w = (res, c1, w1)"
    by (cases "get_access_token env c w") auto
  show ?thesis
  proof (cases res)
    case (Inl e)
    with assms tok have "r = Inl e" "c' = c1" "w' = w1"
      by (simp_all add: poll_statement_def)
    with tok Inl show ?thesis by simp
  next
    case (Inr t)
    with assms tok obtain y where y: "poll_loop env h t (now w1) timeout w1 = Some y"
      and r: "c' = c1" "w' = snd y"
      by (cases "poll_loop env h t (now w1) timeout w1") (auto simp: poll_statement_def)
    from poll_loop_log [OF y] obtain new where
      new: "sent (snd y) = sent w1 @ new"
        "list_all (\<lambda>tq. snd tq = status_request h t
                           \<and> fst tq - now w1 < real_of_int timeout) new"
      by blast
    with tok Inr r show ?thesis by simp
  qed
qed

text \<open>
  C2, as the code has it. \<^verbatim>\<open>_poll_statement\<close> calls the token manager once, before
  the loop, and the loop reuses that token: whenever the call finishes, the client's
  cache is as the one lookup left it and every status fetch of the call carries the
  token that lookup returned. A token that expires while the loop runs is not
  refreshed.
\<close>

theorem poll_statement_single_lookup:
  assumes "poll_statement env c w h timeout = Some (r, c', w')"
  shows "\<exists>res c1 w1 new. get_access_token env c w = (res, c1, w1) \<and> c' = c1
           \<and> sent w' = sent w1 @ new
           \<and> (case res of
                 Inl e \<Rightarrow> r = Inl e \<and> new = []
               | Inr tok \<Rightarrow> list_all (\<lambda>tq. snd tq = status_request h tok) new)"
proof -
  from poll_statement_run [OF assms] obtain res c1 w1 new where
    run: "get_access_token env c w = (res, c1, w1)" "c' = c1" "sent w' = sent w1 @ new"
      "case res of
         Inl e \<Rightarrow> r = Inl e \<and> new = []
       | Inr tok \<Rightarrow>
           list_all (\<lambda>tq. snd tq = status_request h tok
                            \<and> fst tq - now w1 < real_of_int timeout) new"
    by blast
  from run(4) have "case res of
         Inl e \<Rightarrow> r = Inl e \<and> new = []
       | Inr tok \<Rightarrow> list_all (\<lambda>tq. snd tq = status_request h tok) new"
    by (cases res) (simp_all add: list_all_iff)
  with run(1,2,3) show ?thesis by blast
qed

theorem poll_statement_single_lookup_witness:
  "poll_statement env_pending client0 (world_at 0) (JStr ''h'') 2 =
     Some (Inl (TimedOut 2), client0,
           \<lparr>now = 3, sent = [(0, status_request (JStr ''h'') (JStr ''T0'')),
                              (3 / 2, status_request (JStr ''h'') (JStr ''T0''))]\<rparr>)
   \<and> (\<exists>res c1 w1 new. get_access_token env_pending client0 (world_at 0) = (res, c1, w1)
         \<and> client0 = c1
         \<and> sent \<lparr>now = 3, sent = [(0, status_request (JStr ''h'') (JStr ''T0'')),
                              (3 / 2, status_request (JStr ''h'') (JStr ''T0''))]\<rparr> = sent w1 @ new
         \<and> (case res of
               Inl e \<Rightarrow> (Inl (TimedOut 2) :: py_error + json) = Inl e \<and> new = []
             | Inr tok \<Rightarrow> list_all (\<lambda>tq. snd tq = status_request (JStr ''h'') tok) new))"
proof -
  have run: "poll_statement env_pending client0 (world_at 0) (JStr ''h'') 2 =
     Some (Inl (TimedOut 2), client0,
           \<lparr>now = 3, sent = [(0, status_request (JStr ''h'') (JStr ''T0'')),
                              (3 / 2, status_request (JStr ''h'') (JStr ''T0''))]\<rparr>)"
    by (simp add: poll_statement_def get_access_token_def token_cached_def
        client0_def world_at_def env_pending_def pending_def requests_send_def time_sleep_def
        Let_def poll_loop.simps)
  show ?thesis
    by (rule conjI [OF run poll_statement_single_lookup [OF run]])
qed

text \<open>
  C2 as stated fails. The client holds T0, good until time 1; the poll starts at time 0
  with a timeout of 3 and is answered ``pending''. The second status fetch is issued at
  time 3/2, after the expiry, with the same token T0, and no refresh request is in the
  log.
\<close>

theorem poll_statement_stale_token_counterexample:
  "token_expires_at client_short = 1
   \<and> poll_statement env_pending client_short (world_at 0) (JStr ''h'') 3 =
       Some (Inl (TimedOut 3), client_short,
             \<lparr>now = 3, sent = [(0, status_request (JStr ''h'') (JStr ''T0'')),
                                (3 / 2, status_request (JStr ''h'') (JStr ''T0''))]\<rparr>)"
  by (simp add: poll_statement_def get_access_token_def token_cached_def client_short_def
      client0_def world_at_def env_pending_def pending_def requests_send_def time_sleep_def
      Let_def poll_loop.simps)

text \<open>
  C3, as the code has it. \<open>start_time\<close> is read inside \<^verbatim>\<open>_poll_statement\<close>, after the
  submission has been answered and after the poll's own token lookup, so the deadline is
  \<open>timeout\<close> seconds after the start of polling, not after the start of the
  submission. For a submission answered 202 with a handle, a second token lookup that
  returns, status responses that are all pending and a clock that does not run
  backwards, \<^verbatim>\<open>execute\<close> raises the timeout, and every request it sent after the
  start of polling is a status fetch issued before that one deadline, which no poll
  resets.
\<close>

theorem execute_timeout:
  assumes tok1: "get_access_token env c w = (Inr tok, c1, w1)"
    and sub: "requests_send env
                (submit_request tok (execute_payload c1 sql timeout db sch warehouse role bindings))
                w1 = (resp, w2)"
    and st: "status_code resp = 202"
    and body: "json_body resp = Some result"
    and h: "py_getitem result ''statementHandle'' = Inr h"
    and tok2: "get_access_token env c1 w2 = (Inr tok', c2, w3)"
    and pend: "\<forall>k\<ge>length (sent w3). pending_response (respond env k)"
    and mono: "\<forall>k. 0 \<le> latency env k \<and> 0 \<le> oversleep env k"
  shows "\<exists>w' new. execute env c w sql timeout db sch warehouse role bindings =
                     Some (Inl (TimedOut timeout), c2, w')
           \<and> sent w' = sent w3 @ new
           \<and> list_all (\<lambda>tq. snd tq = status_request h tok'
                              \<and> fst tq < now w3 + real_of_int timeout) new"
proof -
  have "real_of_int timeout - (now w3 - now w3) \<le> real (nat timeout)" by simp
  from poll_loop_times_out [OF mono pend this]
  obtain w' where loop: "poll_loop env h tok' (now w3) timeout w3 = Some (Inl (TimedOut timeout), w')"
    by blast
  from poll_loop_log [OF loop] obtain new where
    new: "sent w' = sent w3 @ new"
      "list_all (\<lambda>tq. snd tq = status_request h tok'
                         \<and> fst tq - now w3 < real_of_int timeout) new"
    by auto
  from new(2) have bound: "list_all (\<lambda>tq. snd tq = status_request h tok'
                              \<and> fst tq < now w3 + real_of_int timeout) new"
    by (simp add: list_all_iff algebra_simps)
  have poll: "poll_statement env c1 w2 h timeout = Some (Inl (TimedOut timeout), c2, w')"
    using tok2 loop by (simp add: poll_statement_def)
  have "execute env c w sql timeout db sch warehouse role bindings =
          Some (Inl (TimedOut timeout), c2, w')"
    using tok1 sub st body h poll by (simp add: execute_def)
  with new(1) bound show ?thesis by blast
qed

theorem execute_timeout_witness:
  "\<exists>w' new. execute env_slow client0 (world_at 0) ''SELECT 1'' 3 JNull JNull JNull JNull JNull =
               Some (Inl (TimedOut 3), client0, w')
     \<and> sent w' =
         [(0, submit_request (JStr ''T0'')
                (execute_payload client0 ''SELECT 1'' 3 JNull JNull JNull JNull JNull))] @ new
     \<and> list_all (\<lambda>tq. snd tq = status_request (JStr ''h'') (JStr ''T0'') \<and> fst tq < 5 + 3) new"
proof -
  define w2 where "w2 = \<lparr>now = 5,
     sent = [(0, submit_request (JStr ''T0'')
                   (execute_payload client0 ''SELECT 1'' 3 JNull JNull JNull JNull JNull))]\<rparr>"
  have tok1: "get_access_token env_slow client0 (world_at 0) =
                (Inr (JStr ''T0''), client0, world_at 0)"
    by (simp add: get_access_token_def token_cached_def client0_def world_at_def)
  have sub: "requests_send env_slow
               (submit_request (JStr ''T0'')
                  (execute_payload client0 ''SELECT 1'' 3 JNull JNull JNull JNull JNull))
               (world_at 0) = (accepted, w2)"
    by (simp add: requests_send_def world_at_def env_slow_def w2_def)
  have st: "status_code accepted = 202"
    and body: "json_body accepted = Some (JObj [(''statementHandle'', JStr ''h'')])"
    by (simp_all add: accepted_def)
  have h: "py_getitem (JObj [(''statementHandle'', JStr ''h'')]) ''statementHandle'' =
             Inr (JStr ''h'')"
    by simp
  have tok2: "get_access_token env_slow client0 w2 = (Inr (JStr ''T0''), client0, w2)"
    by (simp add: get_access_token_def token_cached_def client0_def w2_def)
  have pend: "\<forall>k\<ge>length (sent w2). pending_response (respond env_slow k)"
    by (simp add: w2_def env_slow_def pending_response_def pending_def)
  have mono: "\<forall>k. 0 \<le> latency env_slow k \<and> 0 \<le> oversleep env_slow k"
    by (simp add: env_slow_def)
  show ?thesis
    using execute_timeout [OF tok1 sub st body h tok2 pend mono]
    by (simp add: w2_def)
qed

text \<open>
  C3 as stated fails. The submission starts at time 0 with a timeout of 2 and is
  answered after five seconds; polling starts at time 5, and the status fetches are
  issued at times 5 and 13/2, both after the deadline 0 + 2 counted from the start of
  the submission.
\<close>

theorem execute_deadline_counterexample:
  "execute env_slow client0 (world_at 0) ''SELECT 1'' 2 JNull JNull JNull JNull JNull =
     Some (Inl (TimedOut 2), client0,
           \<lparr>now = 8,
             sent = [(0, submit_request (JStr ''T0'')
                           [(''statement'', JStr ''SELECT 1''), (''timeout'', JNum 2)]),
                     (5, status_request (JStr ''h'') (JStr ''T0'')),
                     (13 / 2, status_request (JStr ''h'') (JStr ''T0''))]\<rparr>)
   \<and> \<not> (5 < now (world_at 0) + real_of_int 2)"
  by (simp add: execute_def execute_payload_def poll_statement_def get_access_token_def
      token_cached_def client0_def world_at_def env_slow_def pending_def accepted_def
      requests_send_def time_sleep_def Let_def poll_loop.simps)

section \<open>Properties of \<^verbatim>\<open>execute\<close> and \<^verbatim>\<open>execute_async\<close>\<close>

lemma py_getitem_err: "py_getitem v k = Inl e \<Longrightarrow> runtime_error e"
  by (cases v) (auto simp: runtime_error_def split: option.splits)

lemma py_get_err: "py_get v k d = Inl e \<Longrightarrow> runtime_error e"
  by (cases v) (auto simp: runtime_error_def)

lemma py_iter_err: "py_iter v = Inl e \<Longrightarrow> runtime_error e"
  by (cases v) (auto simp: runtime_error_def)

lemma py_mul_float_err: "py_mul_float v f = Inl e \<Longrightarrow> runtime_error e"
  by (cases v) (auto simp: runtime_error_def)

lemma format_column_err: "format_column col = Inl e \<Longrightarrow> runtime_error e"
  by (auto simp: format_column_def split: sum.splits dest: py_getitem_err py_get_err)

lemma format_columns_err: "format_columns cols = Inl e \<Longrightarrow> runtime_error e"
  by (induction cols arbitrary: e) (auto split: sum.splits dest: format_column_err)

lemma extract_result_set_err:
  "extract_result_set r metadata formatted = Inl e \<Longrightarrow> runtime_error e"
  by (cases metadata)
    (auto simp: extract_result_set_def Let_def runtime_error_def
      split: sum.splits option.splits dest: py_iter_err format_columns_err)

lemma format_result_err: "format_result v = Inl e \<Longrightarrow> runtime_error e"
  by (cases v)
    (auto simp: format_result_def Let_def runtime_error_def
      split: sum.splits option.splits dest: extract_result_set_err)

lemma get_access_token_err:
  assumes "get_access_token env c w = (Inl e, c1, w1)"
  shows "runtime_error e \<or> (\<exists>a b. e = RefreshFailed a b)"
  using assms
  by (auto simp: get_access_token_def Let_def runtime_error_def requests_send_def
      split: if_splits option.splits sum.splits
      dest: py_getitem_err py_get_err py_mul_float_err)

lemma get_access_token_sent:
  assumes "get_access_token env c w = (res, c1, w1)"
  shows "sent w1 = sent w \<or> sent w1 = sent w @ [(now w, token_request c)]"
  using assms
  by (auto simp: get_access_token_def Let_def requests_send_def
      split: if_splits option.splits sum.splits)

text \<open>
  What a finished \<^verbatim>\<open>_poll_statement\<close> has sent and what it can raise: at most one
  refresh request, then status fetches for its handle; never the exception of the
  submission step.
\<close>

lemma poll_statement_sent:
  assumes "poll_statement env c w h timeout = Some (r, c', w')"
  shows "\<exists>new. sent w' = sent w @ new
           \<and> list_all (\<lambda>tq. snd tq = token_request c \<or> url (snd tq) = StatusUrl h) new"
proof -
  from poll_statement_run [OF assms] obtain res c1 w1 new where
    run: "get_access_token env c w = (res, c1, w1)" "sent w' = sent w1 @ new"
      "case res of
         Inl e \<Rightarrow> r = Inl e \<and> new = []
       | Inr tok \<Rightarrow>
           list_all (\<lambda>tq. snd tq = status_request h tok
                            \<and> fst tq - now w1 < real_of_int timeout) new"
    by blast
  from run(3) have fetches: "list_all (\<lambda>tq. url (snd tq) = StatusUrl h) new"
    by (cases res) (simp_all add: list_all_iff status_request_def)
  from get_access_token_sent [OF run(1)]
  consider "sent w' = sent w @ new" | "sent w' = sent w @ ((now w, token_request c) # new)"
    using run(2) by auto
  then show ?thesis
  proof cases
    case 1
    with fetches show ?thesis by (auto simp: list_all_iff)
  next
    case 2
    moreover have "list_all (\<lambda>tq. snd tq = token_request c \<or> url (snd tq) = StatusUrl h)
                     ((now w, token_request c) # new)"
      using fetches by (auto simp: list_all_iff)
    ultimately show ?thesis by blast
  qed
qed

lemma poll_statement_err:
  assumes "poll_statement env c w h timeout = Some (Inl e, c', w')"
  shows "\<forall>a b. e \<noteq> ExecutionFailed a b"
proof -
  obtain res c1 w1 where tok: "get_access_token env c w = (res, c1, w1)"
    by (cases "get_access_token env c w") auto
  show ?thesis
  proof (cases res)
    case (Inl e')
    with assms tok have "e = e'" by (simp add: poll_statement_def)
    with get_access_token_err tok Inl show ?thesis
      by (fastforce simp: runtime_error_def)
  next
    case (Inr t)
    with assms tok obtain y where y: "poll_loop env h t (now w1) timeout w1 = Some y"
      and r: "fst y = Inl e"
      by (cases "poll_loop env h t (now w1) timeout w1") (auto simp: poll_statement_def)
    from poll_loop_log [OF y] r have "poll_error e" by simp
    then show ?thesis by (auto simp: poll_error_def)
  qed
qed

text \<open>
  A loop entered before its deadline sends a status fetch first.
\<close>

lemma poll_loop_first_fetch:
  assumes "now w - start < real_of_int timeout"
    and "poll_loop env h tok start timeout w = Some y"
  shows "\<exists>rest. sent (snd y) = sent w @ (now w, status_request h tok) # rest"
proof -
  define resp where "resp = respond env (length (sent w))"
  define w1 where "w1 = \<lparr>now = now w + latency env (length (sent w)),
                          sent = sent w @ [(now w, status_request h tok)]\<rparr>"
  have send: "requests_send env (status_request h tok) w = (resp, w1)"
    by (simp add: requests_send_def resp_def w1_def Let_def)
  have step: "(if status_code resp \<noteq> 200
             then Some (Inl (StatusFailed (status_code resp) (resp_text resp)), w1)
             else
               (case json_body resp of
                  None \<Rightarrow> Some (Inl JSONDecodeError, w1)
                | Some result \<Rightarrow>
                    (case result of
                       JObj r \<Rightarrow>
                         if map_of r ''resultSetMetaData'' \<noteq> None \<or> map_of r ''message'' \<noteq> None
                         then Some (Inr result, w1)
                         else poll_loop env h tok start timeout (time_sleep env 1 w1)
                     | _ \<Rightarrow> Some (Inl AttributeError, w1)))) = Some y"
    using assms(2) by (subst (asm) poll_loop.simps) (simp add: assms(1) send)
  consider (stop) "snd y = w1"
    | (again) "poll_loop env h tok start timeout (time_sleep env 1 w1) = Some y"
    using step by (auto split: if_splits option.splits json.splits)
  then show ?thesis
  proof cases
    case stop
    then show ?thesis by (simp add: w1_def)
  next
    case again
    from poll_loop_log [OF again] obtain new where
      "sent (snd y) = sent (time_sleep env 1 w1) @ new"
      by blast
    then show ?thesis by (simp add: w1_def time_sleep_def)
  qed
qed

text \<open>
  C6: once the token lookup has returned and the submission has been answered, a
  response with status 200 makes \<^verbatim>\<open>execute\<close> return at once what the normalizer
  makes of the body (or the exception of \<^verbatim>\<open>response.json()\<close> or of the normalizer),
  with the client and the world as the submission left them: nothing is sent after the
  submission. Whenever \<^verbatim>\<open>execute\<close> finishes having sent anything after the
  submission, the response had status 202 and a body with a \<^verbatim>\<open>statementHandle\<close>, and
  what was sent is the poll's token refresh or status fetches for that handle. And a
  response with status 202 and a \<^verbatim>\<open>statementHandle\<close> does cause polling for that
  handle: \<^verbatim>\<open>execute\<close> is then \<^verbatim>\<open>_poll_statement\<close> on the handle followed by the
  normalizer, and when the poll's token lookup returns and the timeout is positive, the
  first request of a finished run after that lookup is the status fetch for the handle.
\<close>

theorem execute_polls_only_on_202:
  assumes tok1: "get_access_token env c w = (Inr tok, c1, w1)"
    and sub: "requests_send env
                (submit_request tok (execute_payload c1 sql timeout db sch warehouse role bindings))
                w1 = (resp, w2)"
  shows "(status_code resp = 200 \<longrightarrow>
            execute env c w sql timeout db sch warehouse role bindings =
              Some (case json_body resp of
                      None \<Rightarrow> Inl JSONDecodeError
                    | Some result \<Rightarrow> format_result result, c1, w2))
         \<and> (\<forall>r c' w'. execute env c w sql timeout db sch warehouse role bindings = Some (r, c', w')
               \<longrightarrow> (\<exists>new. sent w' = sent w2 @ new
                      \<and> (new \<noteq> [] \<longrightarrow>
                           status_code resp = 202
                           \<and> (\<exists>result h. json_body resp = Some result
                                 \<and> py_getitem result ''statementHandle'' = Inr h
                                 \<and> list_all (\<lambda>tq. snd tq = token_request c1
                                                    \<or> url (snd tq) = StatusUrl h) new))))
         \<and> (\<forall>result h.
               status_code resp = 202 \<and> json_body resp = Some result
               \<and> py_getitem result ''statementHandle'' = Inr h
               \<longrightarrow>
                 execute env c w sql timeout db sch warehouse role bindings =
                   (case poll_statement env c1 w2 h timeout of
                      None \<Rightarrow> None
                    | Some (Inl e, c2, w3) \<Rightarrow> Some (Inl e, c2, w3)
                    | Some (Inr polled, c2, w3) \<Rightarrow> Some (format_result polled, c2, w3))
                 \<and> (\<forall>tok' c2 w3 r c' w'.
                       get_access_token env c1 w2 = (Inr tok', c2, w3) \<and> 0 < timeout
                       \<and> execute env c w sql timeout db sch warehouse role bindings =
                           Some (r, c', w')
                       \<longrightarrow> (\<exists>rest. sent w' =
                                     sent w3 @ (now w3, status_request h tok') # rest)))"
proof (intro conjI impI allI)
  assume "status_code resp = 200"
  then show "execute env c w sql timeout db sch warehouse role bindings =
              Some (case json_body resp of
                      None \<Rightarrow> Inl JSONDecodeError
                    | Some result \<Rightarrow> format_result result, c1, w2)"
    using tok1 sub by (simp add: execute_def split: option.splits)
next
  fix r c' w'
  assume run: "execute env c w sql timeout db sch warehouse role bindings = Some (r, c', w')"
  let ?goal = "\<exists>new. sent w' = sent w2 @ new
                      \<and> (new \<noteq> [] \<longrightarrow>
                           status_code resp = 202
                           \<and> (\<exists>result h. json_body resp = Some result
                                 \<and> py_getitem result ''statementHandle'' = Inr h
                                 \<and> list_all (\<lambda>tq. snd tq = token_request c1
                                                    \<or> url (snd tq) = StatusUrl h) new))"
  have stop: ?goal if "w' = w2"
    using that by simp
  show ?goal
  proof (cases "status_code resp = 202")
    case False
    with run tok1 sub have "w' = w2"
      by (auto simp: execute_def split: if_splits option.splits)
    then show ?thesis by (rule stop)
  next
    case True
    show ?thesis
    proof (cases "json_body resp")
      case None
      with run tok1 sub True have "w' = w2" by (simp add: execute_def)
      then show ?thesis by (rule stop)
    next
      case (Some result)
      show ?thesis
      proof (cases "py_getitem result ''statementHandle''")
        case (Inl e)
        with run tok1 sub True Some have "w' = w2" by (simp add: execute_def)
        then show ?thesis by (rule stop)
      next
        case (Inr h)
        with run tok1 sub True Some
        obtain r' where "poll_statement env c1 w2 h timeout = Some (r', c', w')"
          by (cases "poll_statement env c1 w2 h timeout")
            (auto simp: execute_def split: sum.splits)
        from poll_statement_sent [OF this] obtain new where
          "sent w' = sent w2 @ new"
          "list_all (\<lambda>tq. snd tq = token_request c1 \<or> url (snd tq) = StatusUrl h) new"
          by blast
        with True Some Inr show ?thesis by blast
      qed
    qed
  qed
next
  fix result h
  assume acc: "status_code resp = 202 \<and> json_body resp = Some result
               \<and> py_getitem result ''statementHandle'' = Inr h"
  then show "execute env c w sql timeout db sch warehouse role bindings =
                   (case poll_statement env c1 w2 h timeout of
                      None \<Rightarrow> None
                    | Some (Inl e, c2, w3) \<Rightarrow> Some (Inl e, c2, w3)
                    | Some (Inr polled, c2, w3) \<Rightarrow> Some (format_result polled, c2, w3))"
    using tok1 sub by (simp add: execute_def)
next
  fix result h tok' c2 w3 r c' w'
  assume acc: "status_code resp = 202 \<and> json_body resp = Some result
               \<and> py_getitem result ''statementHandle'' = Inr h"
  assume poll: "get_access_token env c1 w2 = (Inr tok', c2, w3) \<and> 0 < timeout
                \<and> execute env c w sql timeout db sch warehouse role bindings = Some (r, c', w')"
  from acc poll tok1 sub
  obtain y where y: "poll_loop env h tok' (now w3) timeout w3 = Some y" and w': "w' = snd y"
    by (cases "poll_loop env h tok' (now w3) timeout w3")
      (auto simp: execute_def poll_statement_def split: sum.splits)
  have "now w3 - now w3 < real_of_int timeout"
    using poll by simp
  from poll_loop_first_fetch [OF this y] w'
  show "\<exists>rest. sent w' = sent w3 @ (now w3, status_request h tok') # rest"
    by simp
qed

theorem execute_polls_only_on_202_witness:
  "execute env_done client0 (world_at 0) ''SELECT 1'' 60 JNull JNull JNull JNull JNull =
     Some (Inr (JObj [(''statement_handle'', JNull),
                      (''success'', JBool True),
                      (''row_count'', JNum 2),
                      (''columns'', JArr [JObj [(''name'', JStr ''A''), (''type'', JStr ''TEXT''),
                                                (''nullable'', JBool True)]]),
                      (''data'', JArr [JArr [JStr ''x''], JArr [JNull]])]),
           client0,
           \<lparr>now = 1 / 2,
             sent = [(0, submit_request (JStr ''T0'')
                           [(''statement'', JStr ''SELECT 1''), (''timeout'', JNum 60)])]\<rparr>)
   \<and> execute env_poll client0 (world_at 0) ''SELECT 1'' 60 JNull JNull JNull JNull JNull =
     Some (Inr (JObj [(''statement_handle'', JNull),
                      (''success'', JBool True),
                      (''row_count'', JNum 2),
                      (''columns'', JArr [JObj [(''name'', JStr ''A''), (''type'', JStr ''TEXT''),
                                                (''nullable'', JBool True)]]),
                      (''data'', JArr [JArr [JStr ''x''], JArr [JNull]])]),
           client0,
           \<lparr>now = 5 / 2,
             sent = [(0, submit_request (JStr ''T0'')
                           [(''statement'', JStr ''SELECT 1''), (''timeout'', JNum 60)]),
                     (1 / 2, status_request (JStr ''h'') (JStr ''T0'')),
                     (2, status_request (JStr ''h'') (JStr ''T0''))]\<rparr>)"
proof -
  define p where "p = execute_payload client0 ''SELECT 1'' 60 JNull JNull JNull JNull JNull"
  define w2 where "w2 = \<lparr>now = 1 / 2, sent = [(0 :: real, submit_request (JStr ''T0'') p)]\<rparr>"
  have p: "p = [(''statement'', JStr ''SELECT 1''), (''timeout'', JNum 60)]"
    by (simp add: p_def execute_payload_def client0_def)
  have norm: "format_result envelope_A =
       Inr (JObj [(''statement_handle'', JNull),
                      (''success'', JBool True),
                      (''row_count'', JNum 2),
                      (''columns'', JArr [JObj [(''name'', JStr ''A''), (''type'', JStr ''TEXT''),
                                                (''nullable'', JBool True)]]),
                      (''data'', JArr [JArr [JStr ''x''], JArr [JNull]])])"
    by (simp add: envelope_A_def format_result_def extract_result_set_def
        format_column_def dict_get_def)
  have tok_done: "get_access_token env_done client0 (world_at 0) =
                (Inr (JStr ''T0''), client0, world_at 0)"
    by (simp add: get_access_token_def token_cached_def client0_def world_at_def)
  have sub_done: "requests_send env_done (submit_request (JStr ''T0'') p) (world_at 0) =
               (done_response, w2)"
    by (simp add: requests_send_def world_at_def env_done_def w2_def)
  have st_done: "status_code done_response = 200"
    and body_done: "json_body done_response = Some envelope_A"
    by (simp_all add: done_response_def)
  from execute_polls_only_on_202 [OF tok_done sub_done [unfolded p_def]] st_done
  have "execute env_done client0 (world_at 0) ''SELECT 1'' 60 JNull JNull JNull JNull JNull =
          Some (case json_body done_response of
                  None \<Rightarrow> Inl JSONDecodeError
                | Some result \<Rightarrow> format_result result, client0, w2)"
    by blast
  then have a: "execute env_done client0 (world_at 0) ''SELECT 1'' 60 JNull JNull JNull JNull JNull =
     Some (Inr (JObj [(''statement_handle'', JNull),
                      (''success'', JBool True),
                      (''row_count'', JNum 2),
                      (''columns'', JArr [JObj [(''name'', JStr ''A''), (''type'', JStr ''TEXT''),
                                                (''nullable'', JBool True)]]),
                      (''data'', JArr [JArr [JStr ''x''], JArr [JNull]])]),
           client0,
           \<lparr>now = 1 / 2,
             sent = [(0, submit_request (JStr ''T0'')
                           [(''statement'', JStr ''SELECT 1''), (''timeout'', JNum 60)])]\<rparr>)"
    by (simp add: body_done norm w2_def p)
  have tok_poll: "get_access_token env_poll client0 (world_at 0) =
                (Inr (JStr ''T0''), client0, world_at 0)"
    by (simp add: get_access_token_def token_cached_def client0_def world_at_def)
  have sub_poll: "requests_send env_poll (submit_request (JStr ''T0'') p) (world_at 0) =
               (accepted, w2)"
    by (simp add: requests_send_def world_at_def env_poll_def w2_def)
  have acc: "status_code accepted = 202
      \<and> json_body accepted = Some (JObj [(''statementHandle'', JStr ''h'')])
      \<and> py_getitem (JObj [(''statementHandle'', JStr ''h'')]) ''statementHandle'' =
          Inr (JStr ''h'')"
    by (simp add: accepted_def)
  have polled: "poll_statement env_poll client0 w2 (JStr ''h'') 60 =
     Some (Inr envelope_A, client0,
           \<lparr>now = 5 / 2,
             sent = [(0, submit_request (JStr ''T0'') p),
                     (1 / 2, status_request (JStr ''h'') (JStr ''T0'')),
                     (2, status_request (JStr ''h'') (JStr ''T0''))]\<rparr>)"
    by (simp add: poll_statement_def get_access_token_def token_cached_def client0_def
        w2_def env_poll_def pending_def done_response_def envelope_A_def requests_send_def
        time_sleep_def Let_def poll_loop.simps)
  from execute_polls_only_on_202 [OF tok_poll sub_poll [unfolded p_def]] acc
  have "execute env_poll client0 (world_at 0) ''SELECT 1'' 60 JNull JNull JNull JNull JNull =
          (case poll_statement env_poll client0 w2 (JStr ''h'') 60 of
             None \<Rightarrow> None
           | Some (Inl e, c2, w3) \<Rightarrow> Some (Inl e, c2, w3)
           | Some (Inr polled, c2, w3) \<Rightarrow> Some (format_result polled, c2, w3))"
    by blast
  then have b: "execute env_poll client0 (world_at 0) ''SELECT 1'' 60 JNull JNull JNull JNull JNull =
     Some (Inr (JObj [(''statement_handle'', JNull),
                      (''success'', JBool True),
                      (''row_count'', JNum 2),
                      (''columns'', JArr [JObj [(''name'', JStr ''A''), (''type'', JStr ''TEXT''),
                                                (''nullable'', JBool True)]]),
                      (''data'', JArr [JArr [JStr ''x''], JArr [JNull]])]),
           client0,
           \<lparr>now = 5 / 2,
             sent = [(0, submit_request (JStr ''T0'')
                           [(''statement'', JStr ''SELECT 1''), (''timeout'', JNum 60)]),
                     (1 / 2, status_request (JStr ''h'') (JStr ''T0'')),
                     (2, status_request (JStr ''h'') (JStr ''T0''))]\<rparr>)"
    by (simp add: polled norm p)
  show ?thesis
    by (rule conjI [OF a b])
qed

text \<open>
  C9: when the token lookup has returned and the submission has been answered,
  \<^verbatim>\<open>execute\<close> raises the exception of its submission step exactly when the status
  of the response is neither 200 nor 202; it then raises it at once, with that status
  and text, and the submission is the last request sent: there is no retry.
\<close>

theorem execute_submission_error:
  assumes tok1: "get_access_token env c w = (Inr tok, c1, w1)"
    and sub: "requests_send env
                (submit_request tok (execute_payload c1 sql timeout db sch warehouse role bindings))
                w1 = (resp, w2)"
  shows "((\<exists>a b c' w'. execute env c w sql timeout db sch warehouse role bindings =
                          Some (Inl (ExecutionFailed a b), c', w'))
            = (status_code resp \<noteq> 200 \<and> status_code resp \<noteq> 202))
         \<and> (status_code resp \<noteq> 200 \<and> status_code resp \<noteq> 202 \<longrightarrow>
               execute env c w sql timeout db sch warehouse role bindings =
                 Some (Inl (ExecutionFailed (status_code resp) (resp_text resp)), c1, w2)
               \<and> sent w2 = sent w1 @
                   [(now w1, submit_request tok
                               (execute_payload c1 sql timeout db sch warehouse role bindings))])"
proof -
  have raised: "execute env c w sql timeout db sch warehouse role bindings =
                 Some (Inl (ExecutionFailed (status_code resp) (resp_text resp)), c1, w2)"
    if "status_code resp \<noteq> 200" "status_code resp \<noteq> 202"
    using tok1 sub that by (simp add: execute_def)
  have log: "sent w2 = sent w1 @
                   [(now w1, submit_request tok
                               (execute_payload c1 sql timeout db sch warehouse role bindings))]"
    using sub by (auto simp: requests_send_def Let_def)
  have only: False
    if run: "execute env c w sql timeout db sch warehouse role bindings =
               Some (Inl (ExecutionFailed a b), c', w')"
      and ok: "status_code resp = 200 \<or> status_code resp = 202"
    for a b c' w'
  proof (cases "json_body resp")
    case None
    with run ok tok1 sub show False by (auto simp: execute_def)
  next
    case (Some result)
    show False
    proof (cases "status_code resp = 202")
      case False
      with run ok tok1 sub Some have "format_result result = Inl (ExecutionFailed a b)"
        by (auto simp: execute_def)
      from format_result_err [OF this] show False by (simp add: runtime_error_def)
    next
      case True
      show False
      proof (cases "py_getitem result ''statementHandle''")
        case (Inl e)
        with run tok1 sub Some True have "e = ExecutionFailed a b"
          by (simp add: execute_def)
        with py_getitem_err [OF Inl] show False by (simp add: runtime_error_def)
      next
        case (Inr h)
        show False
        proof (cases "poll_statement env c1 w2 h timeout")
          case None
          with run tok1 sub Some True Inr show False by (simp add: execute_def)
        next
          case polled: (Some y)
          obtain r c2 w3 where y: "y = (r, c2, w3)" by (cases y) auto
          show False
          proof (cases r)
            case (Inl e)
            with run tok1 sub Some True Inr polled y have "e = ExecutionFailed a b"
              by (simp add: execute_def)
            moreover have "\<forall>a b. e \<noteq> ExecutionFailed a b"
              using poll_statement_err polled y Inl by blast
            ultimately show False by blast
          next
            case r: (Inr v)
            with run tok1 sub Some True Inr polled y
            have "format_result v = Inl (ExecutionFailed a b)"
              by (simp add: execute_def)
            from format_result_err [OF this] show False by (simp add: runtime_error_def)
          qed
        qed
      qed
    qed
  qed
  have iff: "(\<exists>a b c' w'. execute env c w sql timeout db sch warehouse role bindings =
                          Some (Inl (ExecutionFailed a b), c', w'))
            = (status_code resp \<noteq> 200 \<and> status_code resp \<noteq> 202)"
    using raised only by blast
  show ?thesis
    using iff raised log by blast
qed

theorem execute_submission_error_witness:
  "execute env_rejected client0 (world_at 0) ''SELEC 1'' 60 JNull JNull JNull JNull JNull =
     Some (Inl (ExecutionFailed 422 ''SQL compilation error''), client0,
           \<lparr>now = 1 / 2,
             sent = [(0, submit_request (JStr ''T0'')
                           (execute_payload client0 ''SELEC 1'' 60 JNull JNull JNull JNull JNull))]\<rparr>)"
proof -
  define p where "p = execute_payload client0 ''SELEC 1'' 60 JNull JNull JNull JNull JNull"
  define w2 where "w2 = \<lparr>now = 1 / 2, sent = [(0 :: real, submit_request (JStr ''T0'') p)]\<rparr>"
  have tok1: "get_access_token env_rejected client0 (world_at 0) =
                (Inr (JStr ''T0''), client0, world_at 0)"
    by (simp add: get_access_token_def token_cached_def client0_def world_at_def)
  have sub: "requests_send env_rejected (submit_request (JStr ''T0'') p) (world_at 0) =
               (rejected, w2)"
    by (simp add: requests_send_def world_at_def env_rejected_def w2_def)
  have st: "status_code rejected \<noteq> 200 \<and> status_code rejected \<noteq> 202"
    and code: "status_code rejected = 422" "resp_text rejected = ''SQL compilation error''"
    by (simp_all add: rejected_def)
  from execute_submission_error [OF tok1 sub [unfolded p_def]] st
  have "execute env_rejected client0 (world_at 0) ''SELEC 1'' 60 JNull JNull JNull JNull JNull =
          Some (Inl (ExecutionFailed (status_code rejected) (resp_text rejected)), client0, w2)"
    by blast
  then show ?thesis
    unfolding code w2_def p_def by simp
qed





end
